theory Spec2Isabelle
  imports Complex_Main
begin

section \<open>Data model\<close>

text \<open>
  The wallet service keeps two tables, wallets and transactions (ledger entries). The entity
  classes are known from the way \<^verbatim>\<open>wallet.service.ts\<close> reads and writes them: a table is
  the list of its rows, a primary key is a natural number, and a JavaScript number is the
  rational it denotes. The \<open>balance\<close> of a wallet row is the number the service works with,
  \<^verbatim>\<open>Number(wallet.balance)\<close>. A transfer writes its two balances through the double
  arithmetic and the decimal column of the section on numbers; the credit of a webhook, a
  whole number of kobo divided by 100, is computed exactly.
\<close>

record user =
  user_id :: nat
  user_email :: string

record wallet =
  wallet_id :: nat
  wallet_userId :: nat
  walletNumber :: string
  balance :: rat

datatype TransactionType = DEPOSIT | TRANSFER_OUT | TRANSFER_IN

datatype TransactionStatus = PENDING | SUCCESS | FAILED

text \<open>
  A JSON value; an object keeps its properties in insertion order, as a JavaScript object does.
\<close>

datatype json =
    JNull
  | JBool bool
  | JNum rat
  | JStr string
  | JArr "json list"
  | JObj "(string \<times> json) list"

type_synonym jobject = "(string \<times> json) list"

text \<open>
  The text of the \<^verbatim>\<open>metadata\<close> column. The service only ever writes
  \<^verbatim>\<open>JSON.stringify\<close> of an object there, so a text is the empty string, the
  serialisation of an object, or something \<^verbatim>\<open>JSON.parse\<close> rejects. A null column is
  \<open>None\<close>.
\<close>

datatype json_text = Blank | Document jobject | Garbled

record transaction_row =
  txn_id :: nat
  txn_walletId :: nat
  txn_type :: TransactionType
  txn_amount :: rat
  txn_status :: TransactionStatus
  txn_reference :: "string option"
  recipientWalletNumber :: "string option"
  senderWalletNumber :: "string option"
  txn_metadata :: "json_text option"

record db =
  wallets :: "wallet list"
  transactions :: "transaction_row list"

text \<open>
  Everything the service throws. \<open>SyntaxError\<close> is what \<^verbatim>\<open>JSON.parse\<close> throws,
  \<open>TypeError\<close> is a property access on a null relation, \<open>UpstreamError\<close> is a failed
  call of the payment gateway.
\<close>

datatype exception =
    BadRequestException string
  | NotFoundException string
  | SyntaxError
  | TypeError
  | UpstreamError string

text \<open>The naira sign of the messages, as its three UTF-8 bytes.\<close>

definition naira :: string where
  "naira = [CHR 0xE2, CHR 0x82, CHR 0xA6]"

section \<open>Store primitives\<close>

text \<open>\<^verbatim>\<open>findOne({ where })\<close>: the first row that satisfies the condition.\<close>

definition findOne :: "('a \<Rightarrow> bool) \<Rightarrow> 'a list \<Rightarrow> 'a option" where
  "findOne p rows = find p rows"

text \<open>
  \<^verbatim>\<open>save\<close> of an entity that was read from the store writes the row with its primary
  key; a key that is not there yet is inserted.
\<close>

definition saveWallet :: "wallet \<Rightarrow> wallet list \<Rightarrow> wallet list" where
  "saveWallet w rows =
     (if \<exists>r \<in> set rows. wallet_id r = wallet_id w
      then map (\<lambda>r. if wallet_id r = wallet_id w then w else r) rows
      else rows @ [w])"

definition saveTransaction :: "transaction_row \<Rightarrow> transaction_row list \<Rightarrow> transaction_row list" where
  "saveTransaction t rows =
     (if \<exists>r \<in> set rows. txn_id r = txn_id t
      then map (\<lambda>r. if txn_id r = txn_id t then t else r) rows
      else rows @ [t])"

text \<open>
  \<^verbatim>\<open>save\<close> of a freshly created entity inserts it under a primary key that the store
  generates; the generated key is modelled as the successor of the largest key in the table.
\<close>

definition generatedId :: "transaction_row list \<Rightarrow> nat" where
  "generatedId rows = Suc (fold max (map txn_id rows) 0)"

definition insertTransaction :: "transaction_row \<Rightarrow> transaction_row list \<Rightarrow> transaction_row list" where
  "insertTransaction t rows = rows @ [t\<lparr>txn_id := generatedId rows\<rparr>]"

text \<open>
  The relation \<^verbatim>\<open>transaction.wallet\<close>, loaded with \<^verbatim>\<open>relations: ['wallet']\<close>: the wallet
  whose primary key is the entry's \<^verbatim>\<open>walletId\<close>, or null.
\<close>

definition walletRelation :: "db \<Rightarrow> transaction_row \<Rightarrow> wallet option" where
  "walletRelation d t = findOne (\<lambda>w. wallet_id w = txn_walletId t) (wallets d)"

text \<open>
  A query runner: the committed store, the view of the open store transaction, and the log of
  the row locks the transaction has taken, in the order it took them. A commit publishes the
  view; a rollback throws it away.
\<close>

record queryRunner =
  committed :: db
  pending :: db
  locks :: "nat list"

definition startTransaction :: "db \<Rightarrow> queryRunner" where
  "startTransaction d = \<lparr>committed = d, pending = d, locks = []\<rparr>"

definition commitTransaction :: "queryRunner \<Rightarrow> queryRunner" where
  "commitTransaction qr = qr\<lparr>committed := pending qr\<rparr>"

definition rollbackTransaction :: "queryRunner \<Rightarrow> queryRunner" where
  "rollbackTransaction qr = qr\<lparr>pending := committed qr\<rparr>"

text \<open>
  \<^verbatim>\<open>findOne(Wallet, { where, lock: { mode: 'pessimistic_write' } })\<close>: the row that is
  found is locked for the rest of the store transaction.
\<close>

definition findOneWalletLocked ::
  "(wallet \<Rightarrow> bool) \<Rightarrow> queryRunner \<Rightarrow> wallet option \<times> queryRunner" where
  "findOneWalletLocked p qr =
     (case findOne p (wallets (pending qr)) of
        None \<Rightarrow> (None, qr)
      | Some w \<Rightarrow> (Some w, qr\<lparr>locks := locks qr @ [wallet_id w]\<rparr>))"

definition saveWalletQR :: "wallet \<Rightarrow> queryRunner \<Rightarrow> queryRunner" where
  "saveWalletQR w qr =
     qr\<lparr>pending := (pending qr)\<lparr>wallets := saveWallet w (wallets (pending qr))\<rparr>\<rparr>"

definition saveTransactionQR :: "transaction_row \<Rightarrow> queryRunner \<Rightarrow> queryRunner" where
  "saveTransactionQR t qr =
     qr\<lparr>pending := (pending qr)\<lparr>transactions := saveTransaction t (transactions (pending qr))\<rparr>\<rparr>"

definition insertTransactionQR :: "transaction_row \<Rightarrow> queryRunner \<Rightarrow> queryRunner" where
  "insertTransactionQR t qr =
     qr\<lparr>pending := (pending qr)\<lparr>transactions := insertTransaction t (transactions (pending qr))\<rparr>\<rparr>"

section \<open>JSON metadata\<close>

text \<open>A text is truthy in a JavaScript condition unless it is the empty string.\<close>

definition truthy :: "json_text \<Rightarrow> bool" where
  "truthy text = (text \<noteq> Blank)"

definition JSON_parse :: "json_text \<Rightarrow> exception + jobject" where
  "JSON_parse text =
     (case text of
        Blank \<Rightarrow> Inl SyntaxError
      | Document obj \<Rightarrow> Inr obj
      | Garbled \<Rightarrow> Inl SyntaxError)"

definition JSON_stringify :: "jobject \<Rightarrow> json_text" where
  "JSON_stringify obj = Document obj"

text \<open>
  \<^verbatim>\<open>transaction.metadata ? JSON.parse(transaction.metadata) : {}\<close>
\<close>

definition metadataObject :: "json_text option \<Rightarrow> exception + jobject" where
  "metadataObject m =
     (case m of
        None \<Rightarrow> Inr []
      | Some text \<Rightarrow> if truthy text then JSON_parse text else Inr [])"

text \<open>
  The assignment \<^verbatim>\<open>obj.k = v\<close>: an existing property keeps its place, a new one goes last.
\<close>

fun setProp :: "string \<Rightarrow> json \<Rightarrow> jobject \<Rightarrow> jobject" where
  "setProp k v [] = [(k, v)]"
| "setProp k v ((k', v') # ps) =
     (if k' = k then (k, v) # ps else (k', v') # setProp k v ps)"

text \<open>
  The assignment of a value that may be \<^verbatim>\<open>undefined\<close>: \<^verbatim>\<open>JSON.stringify\<close> leaves a
  property whose value is undefined out of the text.
\<close>

definition setOptionalProp :: "string \<Rightarrow> string option \<Rightarrow> jobject \<Rightarrow> jobject" where
  "setOptionalProp k v obj =
     (case v of
        None \<Rightarrow> filter (\<lambda>p. fst p \<noteq> k) obj
      | Some s \<Rightarrow> setProp k (JStr s) obj)"

section \<open>Numbers\<close>

text \<open>
  A JavaScript number is an IEEE 754 double, and every arithmetic operation returns the double
  nearest to the exact result, a tie going to the even significand. Infinities, NaN and
  subnormal numbers are outside the model.
\<close>

definition roundHalfEven :: "rat \<Rightarrow> int" where
  "roundHalfEven q =
     (let f = \<lfloor>q\<rfloor>; r = q - of_int f
      in if r < 1 / 2 then f else if 1 / 2 < r then f + 1 else if even f then f else f + 1)"

text \<open>The number of digits of a positive integer in base \<open>b\<close>.\<close>

function digitLength :: "int \<Rightarrow> int \<Rightarrow> int" where
  "digitLength b n = (if n \<le> 0 \<or> b \<le> 1 then 0 else digitLength b (n div b) + 1)"
  by pat_completeness auto
termination
  by (relation "measure (\<lambda>(b, n). nat n)") (auto simp: int_div_less_self)

declare digitLength.simps [simp del]

text \<open>The exponent \<open>e\<close> with \<open>b ^ e \<le> x < b ^ (e + 1)\<close>, for a positive \<open>x\<close>.\<close>

definition magnitude :: "int \<Rightarrow> rat \<Rightarrow> int" where
  "magnitude b x =
     (if 1 \<le> x then digitLength b \<lfloor>x\<rfloor> - 1
      else - digitLength b (\<lceil>1 / x\<rceil> - 1))"

text \<open>The nearest double: 53 significant bits.\<close>

definition roundDouble :: "rat \<Rightarrow> rat" where
  "roundDouble x =
     (if x = 0 then 0
      else let ulp = 2 powi (magnitude 2 \<bar>x\<bar> - 52)
           in sgn x * (ulp * of_int (roundHalfEven (\<bar>x\<bar> / ulp))))"

text \<open>
  \<^verbatim>\<open>Number(text)\<close> and \<^verbatim>\<open>JSON.parse\<close> of a decimal literal: the double nearest to the
  decimal.
\<close>

definition jsNumber :: "rat \<Rightarrow> rat" where
  "jsNumber decimal = roundDouble decimal"

definition jsMinus :: "rat \<Rightarrow> rat \<Rightarrow> rat" where
  "jsMinus a b = roundDouble (a - b)"

definition jsPlus :: "rat \<Rightarrow> rat \<Rightarrow> rat" where
  "jsPlus a b = roundDouble (a + b)"

text \<open>
  \<^verbatim>\<open>Number.prototype.toString\<close>, which the database driver uses to send a number: the
  decimal with the fewest significant digits that reads back as the same double, the one
  closest to the double if there are two. \<open>decimalCandidate x k\<close> looks among the decimals
  of \<open>k\<close> significant digits, of which only the two around \<open>x\<close> can read back as \<open>x\<close>.
  Seventeen digits always suffice.
\<close>

definition decimalCandidate :: "rat \<Rightarrow> nat \<Rightarrow> rat option" where
  "decimalCandidate x k =
     (let step = 10 powi (magnitude 10 x - int k + 1);
          lo = step * of_int \<lfloor>x / step\<rfloor>;
          hi = lo + step;
          okLo = (roundDouble lo = x);
          okHi = (roundDouble hi = x)
      in if okLo \<and> okHi
         then Some (if x - lo < hi - x then lo
                    else if hi - x < x - lo then hi
                    else if even \<lfloor>x / step\<rfloor> then lo else hi)
         else if okLo then Some lo
         else if okHi then Some hi
         else None)"

fun shortestDecimal :: "rat \<Rightarrow> nat list \<Rightarrow> rat" where
  "shortestDecimal x [] = x"
| "shortestDecimal x (k # ks) =
     (case decimalCandidate x k of
        Some c \<Rightarrow> c
      | None \<Rightarrow> shortestDecimal x ks)"

definition Number_toString :: "rat \<Rightarrow> rat" where
  "Number_toString x = sgn x * shortestDecimal \<bar>x\<bar> [1..<18]"

text \<open>
  Modelled from the spec: the declaration of the \<^verbatim>\<open>balance\<close> column of the wallet entity,
  which is not among the sources. The specification gives the balance as a decimal with the
  precision of the minor unit of the currency, that is two decimal places; a decimal column
  rounds what is written to it to its scale, a tie going away from zero. The number of digits
  before the point is not limited here.
\<close>

definition decimalColumn :: "rat \<Rightarrow> rat" where
  "decimalColumn v = sgn v * (of_int \<lfloor>\<bar>v\<bar> * 100 + 1 / 2\<rfloor> / 100)"

text \<open>
  Saving a number as a balance and reading the row again: the number is sent as its text,
  the column rounds it, and \<^verbatim>\<open>Number(wallet.balance)\<close> reads the decimal back.
\<close>

definition balanceColumn :: "rat \<Rightarrow> rat" where
  "balanceColumn x = jsNumber (decimalColumn (Number_toString x))"

section \<open>Transfer\<close>

record transferDto =
  wallet_number :: string
  transfer_amount :: rat

record transferResponse =
  response_status :: string
  response_message :: string

text \<open>
  The \<^verbatim>\<open>try\<close> block of \<^verbatim>\<open>transfer\<close>, run on the query runner of the open store
  transaction. \<open>transferReference\<close> is the string the block generates from the clock and four
  random bytes; the block never passes it to either \<^verbatim>\<open>create\<close> call. The two new
  balances are computed in double arithmetic, and a wallet row is kept as a later read shows
  it, its balance gone through the balance column.
\<close>

definition transfer_try ::
  "user \<Rightarrow> transferDto \<Rightarrow> string \<Rightarrow> queryRunner \<Rightarrow> (exception + transferResponse) \<times> queryRunner" where
  "transfer_try usr transferDto transferReference qr =
     (case findOneWalletLocked (\<lambda>w. wallet_userId w = user_id usr) qr of
        (None, qr1) \<Rightarrow> (Inl (NotFoundException ''Sender wallet not found''), qr1)
      | (Some senderWallet, qr1) \<Rightarrow>
          (case findOneWalletLocked (\<lambda>w. walletNumber w = wallet_number transferDto) qr1 of
             (None, qr2) \<Rightarrow> (Inl (NotFoundException ''Recipient wallet not found''), qr2)
           | (Some recipientWallet, qr2) \<Rightarrow>
               if wallet_id senderWallet = wallet_id recipientWallet
               then (Inl (BadRequestException ''Cannot transfer to yourself''), qr2)
               else if balance senderWallet < transfer_amount transferDto
               then (Inl (BadRequestException ''Insufficient balance''), qr2)
               else
                 let senderWallet' =
                       senderWallet\<lparr>balance := balanceColumn
                         (jsMinus (balance senderWallet) (transfer_amount transferDto))\<rparr>;
                     qr3 = saveWalletQR senderWallet' qr2;
                     recipientWallet' =
                       recipientWallet\<lparr>balance := balanceColumn
                         (jsPlus (balance recipientWallet) (transfer_amount transferDto))\<rparr>;
                     qr4 = saveWalletQR recipientWallet' qr3;
                     senderTransaction =
                       \<lparr>txn_id = 0,
                        txn_walletId = wallet_id senderWallet',
                        txn_type = TRANSFER_OUT,
                        txn_amount = transfer_amount transferDto,
                        txn_status = SUCCESS,
                        txn_reference = None,
                        recipientWalletNumber = Some (walletNumber recipientWallet'),
                        senderWalletNumber = None,
                        txn_metadata = Some (JSON_stringify
                          [(''transfer_type'', JStr ''outgoing''),
                           (''recipient_wallet'', JStr (walletNumber recipientWallet')),
                           (''initiated_by'', JStr (user_email usr))])\<rparr>;
                     recipientTransaction =
                       \<lparr>txn_id = 0,
                        txn_walletId = wallet_id recipientWallet',
                        txn_type = TRANSFER_IN,
                        txn_amount = transfer_amount transferDto,
                        txn_status = SUCCESS,
                        txn_reference = None,
                        recipientWalletNumber = None,
                        senderWalletNumber = Some (walletNumber senderWallet'),
                        txn_metadata = Some (JSON_stringify
                          [(''transfer_type'', JStr ''incoming''),
                           (''sender_wallet'', JStr (walletNumber senderWallet')),
                           (''sender_email'', JStr (user_email usr))])\<rparr>;
                     qr5 = insertTransactionQR recipientTransaction
                             (insertTransactionQR senderTransaction qr4)
                 in (Inr \<lparr>response_status = ''success'',
                          response_message = ''Transfer completed successfully''\<rparr>,
                     commitTransaction qr5)))"

text \<open>
  \<^verbatim>\<open>transfer\<close>: the amount check, then the store transaction; an exception of the
  \<^verbatim>\<open>try\<close> block rolls the store transaction back and is thrown again. The result is what
  the call returns or throws, and the committed store it leaves.
\<close>

definition transfer ::
  "user \<Rightarrow> transferDto \<Rightarrow> string \<Rightarrow> db \<Rightarrow> (exception + transferResponse) \<times> db" where
  "transfer usr transferDto transferReference d =
     (if transfer_amount transferDto < 100
      then (Inl (BadRequestException (''Minimum transfer amount is '' @ naira @ ''100'')), d)
      else
        (case transfer_try usr transferDto transferReference (startTransaction d) of
           (Inl error, qr) \<Rightarrow> (Inl error, committed (rollbackTransaction qr))
         | (Inr response, qr) \<Rightarrow> (Inr response, committed qr)))"

text \<open>The row locks a transfer takes, in the order it takes them.\<close>

definition transfer_locks :: "user \<Rightarrow> transferDto \<Rightarrow> string \<Rightarrow> db \<Rightarrow> nat list" where
  "transfer_locks usr transferDto transferReference d =
     (if transfer_amount transferDto < 100 then []
      else locks (snd (transfer_try usr transferDto transferReference (startTransaction d))))"

section \<open>Webhook reconciliation\<close>

record chargeData =
  data_reference :: string
  data_amount :: rat
  gateway_response :: "string option"

record payload =
  event :: string
  data :: chargeData

text \<open>
  The three assignments to the parsed metadata in \<^verbatim>\<open>handleSuccessfulCharge\<close>, in the
  order of the source; \<^verbatim>\<open>gateway_response || 'success'\<close> takes the default for a missing or
  empty response.
\<close>

definition successMetadata :: "payload \<Rightarrow> string \<Rightarrow> jobject \<Rightarrow> jobject" where
  "successMetadata pl now metadata =
     (let metadata1 = setProp ''webhook_received'' (JBool True) metadata;
          metadata2 = setProp ''success_time'' (JStr now) metadata1
      in setProp ''paystack_response''
           (JStr (case gateway_response (data pl) of
                    None \<Rightarrow> ''success''
                  | Some s \<Rightarrow> if s = [] then ''success'' else s)) metadata2)"

text \<open>The three assignments to the parsed metadata in \<^verbatim>\<open>handleFailedCharge\<close>.\<close>

definition failureMetadata :: "payload \<Rightarrow> string \<Rightarrow> jobject \<Rightarrow> jobject" where
  "failureMetadata pl now metadata =
     (let metadata1 = setOptionalProp ''failure_reason'' (gateway_response (data pl)) metadata;
          metadata2 = setProp ''failure_time'' (JStr now) metadata1
      in setProp ''webhook_received'' (JBool True) metadata2)"

text \<open>
  The \<^verbatim>\<open>try\<close> block of \<^verbatim>\<open>handleSuccessfulCharge\<close>; \<open>now\<close> is
  \<^verbatim>\<open>new Date().toISOString()\<close>.
\<close>

definition handleSuccessfulCharge_try ::
  "payload \<Rightarrow> string \<Rightarrow> queryRunner \<Rightarrow> (exception + unit) \<times> queryRunner" where
  "handleSuccessfulCharge_try pl now qr =
     (let reference = data_reference (data pl); amount = data_amount (data pl) in
      case findOne (\<lambda>t. txn_reference t = Some reference) (transactions (pending qr)) of
        None \<Rightarrow>
          (Inl (NotFoundException (''Transaction with reference '' @ reference @ '' not found'')), qr)
      | Some txn \<Rightarrow>
          if txn_status txn = SUCCESS then (Inr (), commitTransaction qr)
          else
            (case metadataObject (txn_metadata txn) of
               Inl error \<Rightarrow> (Inl error, qr)
             | Inr metadata \<Rightarrow>
                 let metadata' = successMetadata pl now metadata;
                     txn' = txn\<lparr>txn_status := SUCCESS,
                                txn_metadata := Some (JSON_stringify metadata')\<rparr>;
                     qr1 = saveTransactionQR txn' qr
                 in (case walletRelation (pending qr) txn of
                       None \<Rightarrow> (Inl TypeError, qr1)
                     | Some wlt \<Rightarrow>
                         let amountInNaira = amount / 100;
                             wlt' = wlt\<lparr>balance := balance wlt + amountInNaira\<rparr>;
                             qr2 = saveWalletQR wlt' qr1
                         in (Inr (), commitTransaction qr2))))"

definition handleSuccessfulCharge :: "payload \<Rightarrow> string \<Rightarrow> db \<Rightarrow> (exception + unit) \<times> db" where
  "handleSuccessfulCharge pl now d =
     (case handleSuccessfulCharge_try pl now (startTransaction d) of
        (Inl error, qr) \<Rightarrow> (Inl error, committed (rollbackTransaction qr))
      | (Inr u, qr) \<Rightarrow> (Inr u, committed qr))"

text \<open>The \<^verbatim>\<open>try\<close> block of \<^verbatim>\<open>handleFailedCharge\<close>; it does not load the wallet.\<close>

definition handleFailedCharge_try ::
  "payload \<Rightarrow> string \<Rightarrow> queryRunner \<Rightarrow> (exception + unit) \<times> queryRunner" where
  "handleFailedCharge_try pl now qr =
     (let reference = data_reference (data pl) in
      case findOne (\<lambda>t. txn_reference t = Some reference) (transactions (pending qr)) of
        None \<Rightarrow>
          (Inl (NotFoundException (''Transaction with reference '' @ reference @ '' not found'')), qr)
      | Some txn \<Rightarrow>
          if txn_status txn = FAILED then (Inr (), commitTransaction qr)
          else
            (case metadataObject (txn_metadata txn) of
               Inl error \<Rightarrow> (Inl error, qr)
             | Inr metadata \<Rightarrow>
                 let metadata' = failureMetadata pl now metadata;
                     txn' = txn\<lparr>txn_status := FAILED,
                                txn_metadata := Some (JSON_stringify metadata')\<rparr>;
                     qr1 = saveTransactionQR txn' qr
                 in (Inr (), commitTransaction qr1)))"

definition handleFailedCharge :: "payload \<Rightarrow> string \<Rightarrow> db \<Rightarrow> (exception + unit) \<times> db" where
  "handleFailedCharge pl now d =
     (case handleFailedCharge_try pl now (startTransaction d) of
        (Inl error, qr) \<Rightarrow> (Inl error, committed (rollbackTransaction qr))
      | (Inr u, qr) \<Rightarrow> (Inr u, committed qr))"

definition handlePaystackWebhook ::
  "payload \<Rightarrow> string \<Rightarrow> string \<Rightarrow> db \<Rightarrow> (exception + unit) \<times> db" where
  "handlePaystackWebhook pl signature now d =
     (if event pl = ''charge.success'' then handleSuccessfulCharge pl now d
      else if event pl = ''charge.failed'' then handleFailedCharge pl now d
      else (Inr (), d))"

section \<open>Reads and deposit initiation\<close>

record depositStatus =
  status_reference :: "string option"
  status_status :: TransactionStatus
  status_amount :: rat
  status_metadata :: "jobject option"

definition getDepositStatus :: "user \<Rightarrow> string \<Rightarrow> db \<Rightarrow> exception + depositStatus" where
  "getDepositStatus usr reference d =
     (case findOne (\<lambda>t. txn_reference t = Some reference) (transactions d) of
        None \<Rightarrow> Inl (NotFoundException ''Transaction not found'')
      | Some txn \<Rightarrow>
          (case walletRelation d txn of
             None \<Rightarrow> Inl TypeError
           | Some wlt \<Rightarrow>
               if wallet_userId wlt \<noteq> user_id usr
               then Inl (BadRequestException ''Unauthorized access to transaction'')
               else Inr \<lparr>status_reference = txn_reference txn,
                         status_status = txn_status txn,
                         status_amount = txn_amount txn,
                         status_metadata =
                           (case txn_metadata txn of
                              None \<Rightarrow> None
                            | Some text \<Rightarrow>
                                if truthy text
                                then (case JSON_parse text of
                                        Inl error \<Rightarrow> None
                                      | Inr obj \<Rightarrow> Some obj)
                                else None)\<rparr>))"

definition getBalance :: "user \<Rightarrow> db \<Rightarrow> exception + rat \<times> string" where
  "getBalance usr d =
     (case findOne (\<lambda>w. wallet_userId w = user_id usr) (wallets d) of
        None \<Rightarrow> Inl (NotFoundException ''Wallet not found'')
      | Some wlt \<Rightarrow> Inr (balance wlt, walletNumber wlt))"

record depositDto =
  deposit_amount :: rat

record depositResponse =
  deposit_reference :: string
  authorization_url :: string

text \<open>
  \<^verbatim>\<open>initiateDeposit\<close>. \<open>reference\<close> is the string \<^verbatim>\<open>generateReference\<close> returns and
  \<open>initializeTransaction\<close> is the call of the payment gateway, which answers or throws. The
  pending entry is saved through the repository, outside any store transaction, before the
  gateway is called.
\<close>

definition initiateDeposit ::
  "user \<Rightarrow> depositDto \<Rightarrow> string \<Rightarrow> (string \<Rightarrow> rat \<Rightarrow> string \<Rightarrow> exception + depositResponse) \<Rightarrow> db
     \<Rightarrow> (exception + depositResponse) \<times> db" where
  "initiateDeposit usr dto reference initializeTransaction d =
     (case findOne (\<lambda>w. wallet_userId w = user_id usr) (wallets d) of
        None \<Rightarrow> (Inl (NotFoundException ''Wallet not found''), d)
      | Some wlt \<Rightarrow>
          if deposit_amount dto < 100
          then (Inl (BadRequestException (''Minimum deposit amount is '' @ naira @ ''100'')), d)
          else
            let txn = \<lparr>txn_id = 0,
                       txn_walletId = wallet_id wlt,
                       txn_type = DEPOSIT,
                       txn_amount = deposit_amount dto,
                       txn_status = PENDING,
                       txn_reference = Some reference,
                       recipientWalletNumber = None,
                       senderWalletNumber = None,
                       txn_metadata = None\<rparr>;
                d' = d\<lparr>transactions := insertTransaction txn (transactions d)\<rparr>
            in (case initializeTransaction (user_email usr) (deposit_amount dto) reference of
                  Inl error \<Rightarrow> (Inl error, d')
                | Inr response \<Rightarrow> (Inr response, d')))"

section \<open>Sequences of operations\<close>

text \<open>
  A call of the service together with everything it takes from its environment: the generated
  reference, the answer of the payment gateway, the signature header, the clock.
\<close>

datatype operation =
    GetBalance user
  | InitiateDeposit user depositDto string "string \<Rightarrow> rat \<Rightarrow> string \<Rightarrow> exception + depositResponse"
  | Transfer user transferDto string
  | ReconcileWebhook payload string string

text \<open>The committed store a call leaves; \<^verbatim>\<open>getBalance\<close> only reads.\<close>

fun apply_operation :: "operation \<Rightarrow> db \<Rightarrow> db" where
  "apply_operation (GetBalance usr) d = d"
| "apply_operation (InitiateDeposit usr dto reference gateway) d =
     snd (initiateDeposit usr dto reference gateway d)"
| "apply_operation (Transfer usr dto transferReference) d =
     snd (transfer usr dto transferReference d)"
| "apply_operation (ReconcileWebhook pl signature now) d =
     snd (handlePaystackWebhook pl signature now d)"

text \<open>Every committed store that a sequence of calls goes through, the first one included.\<close>

fun committedStates :: "operation list \<Rightarrow> db \<Rightarrow> db list" where
  "committedStates [] d = [d]"
| "committedStates (opn # opns) d = d # committedStates opns (apply_operation opn d)"

definition noNegativeBalance :: "db \<Rightarrow> bool" where
  "noNegativeBalance d = list_all (\<lambda>w. 0 \<le> balance w) (wallets d)"

text \<open>A charge-succeeded event that notifies an amount below zero appears nowhere in the call.\<close>

fun creditNonNegative :: "operation \<Rightarrow> bool" where
  "creditNonNegative (ReconcileWebhook pl signature now) =
     (event pl \<noteq> ''charge.success'' \<or> 0 \<le> data_amount (data pl))"
| "creditNonNegative opn = True"

text \<open>The wallet row with a given primary key, as a later read sees it.\<close>

definition walletById :: "db \<Rightarrow> nat \<Rightarrow> wallet option" where
  "walletById d i = findOne (\<lambda>w. wallet_id w = i) (wallets d)"

definition transactionByReference :: "db \<Rightarrow> string \<Rightarrow> transaction_row option" where
  "transactionByReference d reference =
     findOne (\<lambda>t. txn_reference t = Some reference) (transactions d)"

section \<open>Example data\<close>

text \<open>
  Two users with one wallet each, 1000 and 500, and a pending deposit of 5000 on the first
  wallet.
\<close>

definition alice :: user where
  "alice = \<lparr>user_id = 1, user_email = ''alice@example.com''\<rparr>"

definition bob :: user where
  "bob = \<lparr>user_id = 2, user_email = ''bob@example.com''\<rparr>"

definition carol :: user where
  "carol = \<lparr>user_id = 3, user_email = ''carol@example.com''\<rparr>"

definition pendingDeposit :: transaction_row where
  "pendingDeposit =
     \<lparr>txn_id = 1, txn_walletId = 1, txn_type = DEPOSIT, txn_amount = 5000,
      txn_status = PENDING, txn_reference = Some ''TXN_1'', recipientWalletNumber = None,
      senderWalletNumber = None, txn_metadata = None\<rparr>"

definition exampleStore :: db where
  "exampleStore =
     \<lparr>wallets =
        [\<lparr>wallet_id = 1, wallet_userId = 1, walletNumber = ''W1'', balance = 1000\<rparr>,
         \<lparr>wallet_id = 2, wallet_userId = 2, walletNumber = ''W2'', balance = 500\<rparr>],
      transactions = [pendingDeposit]\<rparr>"

definition chargeSucceeded :: payload where
  "chargeSucceeded =
     \<lparr>event = ''charge.success'',
      data = \<lparr>data_reference = ''TXN_1'', data_amount = 500000,
              gateway_response = Some ''Approved''\<rparr>\<rparr>"

definition chargeFailed :: payload where
  "chargeFailed =
     \<lparr>event = ''charge.failed'',
      data = \<lparr>data_reference = ''TXN_1'', data_amount = 500000,
              gateway_response = Some ''Declined''\<rparr>\<rparr>"

definition chargeNegative :: payload where
  "chargeNegative =
     \<lparr>event = ''charge.success'',
      data = \<lparr>data_reference = ''TXN_1'', data_amount = - 200000,
              gateway_response = None\<rparr>\<rparr>"

definition transfer300 :: transferDto where
  "transfer300 = \<lparr>wallet_number = ''W2'', transfer_amount = 300\<rparr>"

definition transferBack :: transferDto where
  "transferBack = \<lparr>wallet_number = ''W1'', transfer_amount = 300\<rparr>"





definition failedStore :: db where
  "failedStore = exampleStore\<lparr>transactions := [pendingDeposit\<lparr>txn_status := FAILED\<rparr>]\<rparr>"

definition creditedStore :: db where
  "creditedStore = exampleStore\<lparr>transactions := [pendingDeposit\<lparr>txn_status := SUCCESS\<rparr>]\<rparr>"

section \<open>Facts about the store primitives\<close>

lemma find_map_wallet:
  "find (\<lambda>r. wallet_id r = i) (map (\<lambda>r. if wallet_id r = wallet_id w then w else r) rows) =
     (if i = wallet_id w
      then (if \<exists>r \<in> set rows. wallet_id r = wallet_id w then Some w else None)
      else find (\<lambda>r. wallet_id r = i) rows)"
  by (induction rows) auto

lemma find_append_wallet:
  "find (\<lambda>r. wallet_id r = i) (rows @ [w]) =
     (case find (\<lambda>r. wallet_id r = i) rows of
        Some r \<Rightarrow> Some r
      | None \<Rightarrow> if wallet_id w = i then Some w else None)"
  by (induction rows) auto

lemma findOne_saveWallet:
  "findOne (\<lambda>r. wallet_id r = i) (saveWallet w rows) =
     (if i = wallet_id w then Some w else findOne (\<lambda>r. wallet_id r = i) rows)"
proof (cases "\<exists>r \<in> set rows. wallet_id r = wallet_id w")
  case True
  then show ?thesis
    unfolding findOne_def saveWallet_def by (simp add: find_map_wallet)
next
  case False
  then have "find (\<lambda>r. wallet_id r = wallet_id w) rows = None"
    by (simp add: find_None_iff)
  with False show ?thesis
    unfolding findOne_def saveWallet_def
    by (auto simp: find_append_wallet split: option.splits)
qed

lemma walletById_saveWallet:
  "walletById (d\<lparr>wallets := saveWallet w (wallets d)\<rparr>) i =
     (if i = wallet_id w then Some w else walletById d i)"
  by (simp add: walletById_def findOne_saveWallet)

lemma set_saveWallet: "set (saveWallet w rows) \<subseteq> insert w (set rows)"
  by (auto simp: saveWallet_def)

lemma list_all_saveWallet:
  "list_all P rows \<Longrightarrow> P w \<Longrightarrow> list_all P (saveWallet w rows)"
  using set_saveWallet [of w rows] by (auto simp: list_all_iff)

text \<open>
  Writing back a row that was found by a condition, changed in a way that keeps both its key
  and the condition: the same lookup now finds the new row.
\<close>

lemma find_saveTransaction:
  assumes "find p rows = Some t" and "p t'" and "txn_id t' = txn_id t"
  shows "find p (saveTransaction t' rows) = Some t'"
proof -
  from assms(1) have mem: "t \<in> set rows"
    by (auto simp: find_Some_iff)
  have "find p (map (\<lambda>r. if txn_id r = txn_id t then t' else r) rows) = Some t'"
    using assms(1)
  proof (induction rows)
    case Nil
    then show ?case by simp
  next
    case (Cons r rows)
    then show ?case using assms(2) by (auto split: if_splits)
  qed
  with mem assms(3) show ?thesis
    by (auto simp: saveTransaction_def)
qed

lemma map_of_setProp: "map_of (setProp k v obj) = (map_of obj)(k \<mapsto> v)"
  by (induction obj) (auto simp: fun_upd_twist)

lemma map_of_setOptionalProp:
  "map_of (setOptionalProp k v obj) =
     (case v of None \<Rightarrow> (map_of obj)(k := None) | Some s \<Rightarrow> (map_of obj)(k \<mapsto> JStr s))"
proof (cases v)
  case None
  have "map_of (filter (\<lambda>p. fst p \<noteq> k) obj) = (map_of obj)(k := None)"
    by (induction obj) (auto simp: fun_upd_twist)
  with None show ?thesis by (simp add: setOptionalProp_def)
next
  case (Some s)
  then show ?thesis by (simp add: setOptionalProp_def map_of_setProp)
qed

section \<open>Facts about numbers\<close>

lemma roundHalfEven_nonneg: "0 \<le> q \<Longrightarrow> 0 \<le> roundHalfEven q"
  by (auto simp: roundHalfEven_def Let_def)

lemma roundDouble_nonneg: "0 \<le> x \<Longrightarrow> 0 \<le> roundDouble x"
proof -
  assume x: "0 \<le> x"
  have ulp: "(0::rat) < 2 powi e" for e :: int
    by (simp add: zero_less_power_int)
  show ?thesis
  proof (cases "x = 0")
    case True
    then show ?thesis by (simp add: roundDouble_def)
  next
    case False
    let ?ulp = "(2::rat) powi (magnitude 2 \<bar>x\<bar> - 52)"
    have "0 \<le> \<bar>x\<bar> / ?ulp"
      using ulp [of "magnitude 2 \<bar>x\<bar> - 52"] by simp
    then have "0 \<le> roundHalfEven (\<bar>x\<bar> / ?ulp)"
      by (rule roundHalfEven_nonneg)
    then have "0 \<le> ?ulp * of_int (roundHalfEven (\<bar>x\<bar> / ?ulp))"
      using ulp [of "magnitude 2 \<bar>x\<bar> - 52"] by simp
    with x False show ?thesis
      by (simp add: roundDouble_def Let_def)
  qed
qed

lemma decimalCandidate_nonneg:
  assumes "0 \<le> x" and "decimalCandidate x k = Some c"
  shows "0 \<le> c"
proof -
  let ?step = "(10::rat) powi (magnitude 10 x - int k + 1)"
  have step: "0 < ?step"
    by (simp add: zero_less_power_int)
  with assms(1) have "0 \<le> x / ?step" by simp
  then have "(0::rat) \<le> of_int \<lfloor>x / ?step\<rfloor>" by simp
  with step have lo: "0 \<le> ?step * of_int \<lfloor>x / ?step\<rfloor>" by simp
  with step have hi: "0 \<le> ?step * of_int \<lfloor>x / ?step\<rfloor> + ?step" by simp
  from assms(2) have "c = ?step * of_int \<lfloor>x / ?step\<rfloor> \<or>
      c = ?step * of_int \<lfloor>x / ?step\<rfloor> + ?step"
    by (auto simp: decimalCandidate_def Let_def split: if_splits)
  with lo hi show ?thesis by auto
qed

lemma shortestDecimal_nonneg: "0 \<le> x \<Longrightarrow> 0 \<le> shortestDecimal x ks"
  by (induction ks) (auto split: option.splits dest: decimalCandidate_nonneg)

lemma Number_toString_nonneg: "0 \<le> x \<Longrightarrow> 0 \<le> Number_toString x"
  using shortestDecimal_nonneg [of "\<bar>x\<bar>" "[1..<18]"]
  by (simp add: Number_toString_def sgn_if)

lemma decimalColumn_nonneg: "0 \<le> v \<Longrightarrow> 0 \<le> decimalColumn v"
  by (simp add: decimalColumn_def sgn_if)

lemma balanceColumn_nonneg: "0 \<le> x \<Longrightarrow> 0 \<le> balanceColumn x"
  by (simp add: balanceColumn_def jsNumber_def roundDouble_nonneg decimalColumn_nonneg
      Number_toString_nonneg)





















section \<open>The operations as one case analysis each\<close>

lemma transfer_unfold:
  "transfer usr dto ref d =
     (if transfer_amount dto < 100
      then (Inl (BadRequestException (''Minimum transfer amount is '' @ naira @ ''100'')), d)
      else case findOne (\<lambda>w. wallet_userId w = user_id usr) (wallets d) of
        None \<Rightarrow> (Inl (NotFoundException ''Sender wallet not found''), d)
      | Some sw \<Rightarrow>
         (case findOne (\<lambda>w. walletNumber w = wallet_number dto) (wallets d) of
            None \<Rightarrow> (Inl (NotFoundException ''Recipient wallet not found''), d)
          | Some rw \<Rightarrow>
              if wallet_id sw = wallet_id rw
              then (Inl (BadRequestException ''Cannot transfer to yourself''), d)
              else if balance sw < transfer_amount dto
              then (Inl (BadRequestException ''Insufficient balance''), d)
              else (Inr \<lparr>response_status = ''success'',
                         response_message = ''Transfer completed successfully''\<rparr>,
                    \<lparr>wallets =
                       saveWallet
                         (rw\<lparr>balance := balanceColumn (jsPlus (balance rw) (transfer_amount dto))\<rparr>)
                         (saveWallet
                            (sw\<lparr>balance := balanceColumn (jsMinus (balance sw) (transfer_amount dto))\<rparr>)
                            (wallets d)),
                     transactions =
                       insertTransaction
                         \<lparr>txn_id = 0, txn_walletId = wallet_id rw, txn_type = TRANSFER_IN,
                          txn_amount = transfer_amount dto, txn_status = SUCCESS,
                          txn_reference = None, recipientWalletNumber = None,
                          senderWalletNumber = Some (walletNumber sw),
                          txn_metadata = Some (Document
                            [(''transfer_type'', JStr ''incoming''),
                             (''sender_wallet'', JStr (walletNumber sw)),
                             (''sender_email'', JStr (user_email usr))])\<rparr>
                         (insertTransaction
                            \<lparr>txn_id = 0, txn_walletId = wallet_id sw, txn_type = TRANSFER_OUT,
                             txn_amount = transfer_amount dto, txn_status = SUCCESS,
                             txn_reference = None,
                             recipientWalletNumber = Some (walletNumber rw),
                             senderWalletNumber = None,
                             txn_metadata = Some (Document
                               [(''transfer_type'', JStr ''outgoing''),
                                (''recipient_wallet'', JStr (walletNumber rw)),
                                (''initiated_by'', JStr (user_email usr))])\<rparr>
                            (transactions d))\<rparr>)))"
  by (cases d)
     (simp add: transfer_def transfer_try_def findOneWalletLocked_def startTransaction_def
        rollbackTransaction_def commitTransaction_def saveWalletQR_def insertTransactionQR_def
        JSON_stringify_def Let_def split: option.splits)

lemma transfer_error_unchanged:
  "transfer usr dto ref d = (Inl e, d') \<Longrightarrow> d' = d"
  by (auto simp: transfer_unfold split: if_splits option.splits)

lemma transfer_locks_unfold:
  "transfer_locks usr dto ref d =
     (if transfer_amount dto < 100 then []
      else case findOne (\<lambda>w. wallet_userId w = user_id usr) (wallets d) of
        None \<Rightarrow> []
      | Some sw \<Rightarrow>
         (case findOne (\<lambda>w. walletNumber w = wallet_number dto) (wallets d) of
            None \<Rightarrow> [wallet_id sw]
          | Some rw \<Rightarrow> [wallet_id sw, wallet_id rw]))"
  by (cases d)
     (simp add: transfer_locks_def transfer_try_def findOneWalletLocked_def startTransaction_def
        commitTransaction_def saveWalletQR_def insertTransactionQR_def
        Let_def split: option.splits)

lemma handleSuccessfulCharge_unfold:
  "handleSuccessfulCharge pl now d =
     (case transactionByReference d (data_reference (data pl)) of
        None \<Rightarrow>
          (Inl (NotFoundException
                 (''Transaction with reference '' @ data_reference (data pl) @ '' not found'')), d)
      | Some txn \<Rightarrow>
          if txn_status txn = SUCCESS then (Inr (), d)
          else
            (case metadataObject (txn_metadata txn) of
               Inl error \<Rightarrow> (Inl error, d)
             | Inr metadata \<Rightarrow>
                 (case walletRelation d txn of
                    None \<Rightarrow> (Inl TypeError, d)
                  | Some wlt \<Rightarrow>
                      (Inr (),
                       \<lparr>wallets = saveWallet (wlt\<lparr>balance := balance wlt + data_amount (data pl) / 100\<rparr>)
                                    (wallets d),
                        transactions =
                          saveTransaction
                            (txn\<lparr>txn_status := SUCCESS,
                                 txn_metadata := Some (Document (successMetadata pl now metadata))\<rparr>)
                            (transactions d)\<rparr>))))"
  by (cases d)
     (simp add: handleSuccessfulCharge_def handleSuccessfulCharge_try_def startTransaction_def
        rollbackTransaction_def commitTransaction_def saveWalletQR_def saveTransactionQR_def
        transactionByReference_def JSON_stringify_def Let_def
        split: option.splits sum.splits)

lemma handleSuccessfulCharge_error_unchanged:
  "handleSuccessfulCharge pl now d = (Inl e, d') \<Longrightarrow> d' = d"
  by (auto simp: handleSuccessfulCharge_unfold split: if_splits option.splits sum.splits)

lemma handleFailedCharge_unfold:
  "handleFailedCharge pl now d =
     (case transactionByReference d (data_reference (data pl)) of
        None \<Rightarrow>
          (Inl (NotFoundException
                 (''Transaction with reference '' @ data_reference (data pl) @ '' not found'')), d)
      | Some txn \<Rightarrow>
          if txn_status txn = FAILED then (Inr (), d)
          else
            (case metadataObject (txn_metadata txn) of
               Inl error \<Rightarrow> (Inl error, d)
             | Inr metadata \<Rightarrow>
                 (Inr (),
                  d\<lparr>transactions :=
                      saveTransaction
                        (txn\<lparr>txn_status := FAILED,
                             txn_metadata := Some (Document (failureMetadata pl now metadata))\<rparr>)
                        (transactions d)\<rparr>)))"
  by (cases d)
     (simp add: handleFailedCharge_def handleFailedCharge_try_def startTransaction_def
        rollbackTransaction_def commitTransaction_def saveTransactionQR_def
        transactionByReference_def JSON_stringify_def Let_def
        split: option.splits sum.splits)

lemma handleFailedCharge_error_unchanged:
  "handleFailedCharge pl now d = (Inl e, d') \<Longrightarrow> d' = d"
  by (auto simp: handleFailedCharge_unfold split: if_splits option.splits sum.splits)

lemma transactionByReference_saved:
  assumes "transactionByReference d reference = Some txn"
    and "txn_reference txn' = Some reference" and "txn_id txn' = txn_id txn"
  shows "transactionByReference (d\<lparr>transactions := saveTransaction txn' (transactions d)\<rparr>) reference
           = Some txn'"
  using assms find_saveTransaction [of "\<lambda>t. txn_reference t = Some reference" "transactions d" txn txn']
  by (simp add: transactionByReference_def findOne_def)

lemma transactionByReference_reference:
  "transactionByReference d reference = Some txn \<Longrightarrow> txn_reference txn = Some reference"
  by (auto simp: transactionByReference_def findOne_def find_Some_iff)

lemma handleSuccessfulCharge_again:
  assumes "handleSuccessfulCharge pl now1 d = (Inr u, d1)"
  shows "handleSuccessfulCharge pl now2 d1 = (Inr (), d1)"
proof -
  let ?ref = "data_reference (data pl)"
  from assms obtain txn where txn: "transactionByReference d ?ref = Some txn"
    by (auto simp: handleSuccessfulCharge_unfold split: option.splits)
  show ?thesis
  proof (cases "txn_status txn = SUCCESS")
    case True
    with assms txn have "d1 = d"
      by (simp add: handleSuccessfulCharge_unfold)
    with True txn show ?thesis
      by (simp add: handleSuccessfulCharge_unfold)
  next
    case False
    with assms txn obtain metadata where
      ts: "transactions d1 =
             saveTransaction
               (txn\<lparr>txn_status := SUCCESS,
                    txn_metadata := Some (Document (successMetadata pl now1 metadata))\<rparr>)
               (transactions d)"
      by (auto simp: handleSuccessfulCharge_unfold split: option.splits sum.splits)
    let ?txn' = "txn\<lparr>txn_status := SUCCESS,
                      txn_metadata := Some (Document (successMetadata pl now1 metadata))\<rparr>"
    have "transactionByReference (d\<lparr>transactions := saveTransaction ?txn' (transactions d)\<rparr>) ?ref
            = Some ?txn'"
      using txn transactionByReference_reference [OF txn]
      by (intro transactionByReference_saved) simp_all
    then have "transactionByReference d1 ?ref = Some ?txn'"
      by (simp add: transactionByReference_def ts)
    then show ?thesis
      by (simp add: handleSuccessfulCharge_unfold)
  qed
qed

lemma handleSuccessfulCharge_fails_again:
  "handleSuccessfulCharge pl now1 d = (Inl e, d1) \<Longrightarrow>
     handleSuccessfulCharge pl now2 d = (Inl e, d)"
  by (auto simp: handleSuccessfulCharge_unfold split: if_splits option.splits sum.splits)

lemma handleSuccessfulCharge_twice:
  "snd (handleSuccessfulCharge pl now2 (snd (handleSuccessfulCharge pl now1 d))) =
     snd (handleSuccessfulCharge pl now1 d)"
proof (cases "handleSuccessfulCharge pl now1 d")
  case (Pair outcome d1)
  show ?thesis
  proof (cases outcome)
    case (Inl e)
    with Pair handleSuccessfulCharge_error_unchanged [of pl now1 d e d1]
      handleSuccessfulCharge_fails_again [of pl now1 d e d1 now2]
    show ?thesis by simp
  next
    case (Inr u)
    with Pair handleSuccessfulCharge_again [of pl now1 d u d1 now2]
    show ?thesis by simp
  qed
qed

lemma handleFailedCharge_again:
  assumes "handleFailedCharge pl now1 d = (Inr u, d1)"
  shows "handleFailedCharge pl now2 d1 = (Inr (), d1)"
proof -
  let ?ref = "data_reference (data pl)"
  from assms obtain txn where txn: "transactionByReference d ?ref = Some txn"
    by (auto simp: handleFailedCharge_unfold split: option.splits)
  show ?thesis
  proof (cases "txn_status txn = FAILED")
    case True
    with assms txn have "d1 = d"
      by (simp add: handleFailedCharge_unfold)
    with True txn show ?thesis
      by (simp add: handleFailedCharge_unfold)
  next
    case False
    with assms txn obtain metadata where
      ts: "transactions d1 =
             saveTransaction
               (txn\<lparr>txn_status := FAILED,
                    txn_metadata := Some (Document (failureMetadata pl now1 metadata))\<rparr>)
               (transactions d)"
      by (auto simp: handleFailedCharge_unfold split: option.splits sum.splits)
    let ?txn' = "txn\<lparr>txn_status := FAILED,
                      txn_metadata := Some (Document (failureMetadata pl now1 metadata))\<rparr>"
    have "transactionByReference (d\<lparr>transactions := saveTransaction ?txn' (transactions d)\<rparr>) ?ref
            = Some ?txn'"
      using txn transactionByReference_reference [OF txn]
      by (intro transactionByReference_saved) simp_all
    then have "transactionByReference d1 ?ref = Some ?txn'"
      by (simp add: transactionByReference_def ts)
    then show ?thesis
      by (simp add: handleFailedCharge_unfold)
  qed
qed

lemma handleFailedCharge_fails_again:
  "handleFailedCharge pl now1 d = (Inl e, d1) \<Longrightarrow>
     handleFailedCharge pl now2 d = (Inl e, d)"
  by (auto simp: handleFailedCharge_unfold split: if_splits option.splits sum.splits)

lemma handleFailedCharge_twice:
  "snd (handleFailedCharge pl now2 (snd (handleFailedCharge pl now1 d))) =
     snd (handleFailedCharge pl now1 d)"
proof (cases "handleFailedCharge pl now1 d")
  case (Pair outcome d1)
  show ?thesis
  proof (cases outcome)
    case (Inl e)
    with Pair handleFailedCharge_error_unchanged [of pl now1 d e d1]
      handleFailedCharge_fails_again [of pl now1 d e d1 now2]
    show ?thesis by simp
  next
    case (Inr u)
    with Pair handleFailedCharge_again [of pl now1 d u d1 now2]
    show ?thesis by simp
  qed
qed


lemma map_of_failureMetadata:
  "map_of (failureMetadata pl now metadata) =
     (case gateway_response (data pl) of
        None \<Rightarrow> (map_of metadata)(''failure_reason'' := None)
      | Some s \<Rightarrow> (map_of metadata)(''failure_reason'' \<mapsto> JStr s))
       (''failure_time'' \<mapsto> JStr now, ''webhook_received'' \<mapsto> JBool True)"
  by (simp add: failureMetadata_def map_of_setProp map_of_setOptionalProp Let_def
      split: option.splits)


section \<open>Facts about sequences of operations\<close>

lemma initiateDeposit_wallets:
  "wallets (snd (initiateDeposit usr dto reference gateway d)) = wallets d"
  by (simp add: initiateDeposit_def Let_def split: option.splits sum.splits)

lemma transfer_noNegativeBalance:
  assumes "noNegativeBalance d"
  shows "noNegativeBalance (snd (transfer usr dto ref d))"
proof (cases "transfer usr dto ref d")
  case (Pair outcome d')
  show ?thesis
  proof (cases outcome)
    case (Inl e)
    with Pair have "d' = d" by (simp add: transfer_error_unchanged)
    with Pair assms show ?thesis by simp
  next
    case (Inr response)
    with Pair obtain sw rw where
      sw: "findOne (\<lambda>w. wallet_userId w = user_id usr) (wallets d) = Some sw" and
      rw: "findOne (\<lambda>w. walletNumber w = wallet_number dto) (wallets d) = Some rw" and
      amt: "100 \<le> transfer_amount dto" and
      enough: "transfer_amount dto \<le> balance sw" and
      ws: "wallets d' =
             saveWallet
               (rw\<lparr>balance := balanceColumn (jsPlus (balance rw) (transfer_amount dto))\<rparr>)
               (saveWallet
                  (sw\<lparr>balance := balanceColumn (jsMinus (balance sw) (transfer_amount dto))\<rparr>)
                  (wallets d))"
      by (auto simp: transfer_unfold split: if_splits option.splits)
    from rw have "rw \<in> set (wallets d)"
      by (auto simp: findOne_def find_Some_iff)
    with assms have "0 \<le> balance rw"
      by (simp add: noNegativeBalance_def list_all_iff)
    with amt have "0 \<le> balance rw + transfer_amount dto" by simp
    then have "0 \<le> balanceColumn (jsPlus (balance rw) (transfer_amount dto))"
      by (simp add: jsPlus_def roundDouble_nonneg balanceColumn_nonneg)
    moreover from enough have "0 \<le> balance sw - transfer_amount dto" by simp
    then have "0 \<le> balanceColumn (jsMinus (balance sw) (transfer_amount dto))"
      by (simp add: jsMinus_def roundDouble_nonneg balanceColumn_nonneg)
    ultimately have "list_all (\<lambda>w. 0 \<le> balance w) (wallets d')"
      using assms unfolding ws noNegativeBalance_def
      by (intro list_all_saveWallet) simp_all
    with Pair show ?thesis by (simp add: noNegativeBalance_def)
  qed
qed

lemma handleSuccessfulCharge_noNegativeBalance:
  assumes "noNegativeBalance d" and "0 \<le> data_amount (data pl)"
  shows "noNegativeBalance (snd (handleSuccessfulCharge pl now d))"
proof (cases "handleSuccessfulCharge pl now d")
  case (Pair outcome d')
  show ?thesis
  proof (cases "d' = d")
    case True
    with Pair assms show ?thesis by simp
  next
    case False
    with Pair obtain txn wlt where
      wl: "walletRelation d txn = Some wlt" and
      ws: "wallets d' = saveWallet (wlt\<lparr>balance := balance wlt + data_amount (data pl) / 100\<rparr>)
             (wallets d)"
      by (auto simp: handleSuccessfulCharge_unfold split: if_splits option.splits sum.splits)
    from wl have "wlt \<in> set (wallets d)"
      by (auto simp: walletRelation_def findOne_def find_Some_iff)
    with assms(1) have "0 \<le> balance wlt"
      by (simp add: noNegativeBalance_def list_all_iff)
    with assms(2) have "0 \<le> balance wlt + data_amount (data pl) / 100" by simp
    then have "list_all (\<lambda>w. 0 \<le> balance w) (wallets d')"
      using assms(1) unfolding ws noNegativeBalance_def
      by (intro list_all_saveWallet) simp_all
    with Pair show ?thesis by (simp add: noNegativeBalance_def)
  qed
qed

lemma handleFailedCharge_wallets:
  "wallets (snd (handleFailedCharge pl now d)) = wallets d"
  by (simp add: handleFailedCharge_unfold split: option.splits sum.splits)

lemma apply_operation_noNegativeBalance:
  assumes "noNegativeBalance d" and "creditNonNegative opn"
  shows "noNegativeBalance (apply_operation opn d)"
proof (cases opn)
  case (GetBalance usr)
  with assms show ?thesis by simp
next
  case (InitiateDeposit usr dto reference gateway)
  with assms show ?thesis
    by (simp add: noNegativeBalance_def initiateDeposit_wallets)
next
  case (Transfer usr dto ref)
  with assms show ?thesis
    by (simp add: transfer_noNegativeBalance)
next
  case (ReconcileWebhook pl signature now)
  show ?thesis
  proof (cases "event pl = ''charge.success''")
    case True
    with assms ReconcileWebhook show ?thesis
      by (simp add: handlePaystackWebhook_def handleSuccessfulCharge_noNegativeBalance)
  next
    case False
    with assms ReconcileWebhook show ?thesis
      by (simp add: handlePaystackWebhook_def noNegativeBalance_def handleFailedCharge_wallets)
  qed
qed

lemma committedStates_noNegativeBalance:
  "noNegativeBalance d \<Longrightarrow> list_all creditNonNegative opns \<Longrightarrow>
     list_all noNegativeBalance (committedStates opns d)"
proof (induction opns arbitrary: d)
  case Nil
  then show ?case by simp
next
  case (Cons opn opns)
  then show ?case
    by (simp add: apply_operation_noNegativeBalance)
qed

section \<open>Transfer\<close>




text \<open>
  C4. The checks of a transfer, in the order the code makes them: an amount below 100 is a bad
  request (invalid amount); then a missing sender wallet and a missing recipient wallet are not
  found; then a recipient wallet that is the sender's is a bad request (invalid operation);
  then a sender balance below the amount is a bad request (insufficient funds). Each of them,
  and any other exception of the call, leaves the committed store unchanged: no balance
  changes and no entry is created.
\<close>

theorem transfer_failures:
  "(transfer_amount dto < 100 \<longrightarrow>
      transfer usr dto ref d =
        (Inl (BadRequestException (''Minimum transfer amount is '' @ naira @ ''100'')), d)) \<and>
   (100 \<le> transfer_amount dto \<and>
    findOne (\<lambda>w. wallet_userId w = user_id usr) (wallets d) = None \<longrightarrow>
      transfer usr dto ref d = (Inl (NotFoundException ''Sender wallet not found''), d)) \<and>
   (100 \<le> transfer_amount dto \<and>
    findOne (\<lambda>w. wallet_userId w = user_id usr) (wallets d) = Some sw \<and>
    findOne (\<lambda>w. walletNumber w = wallet_number dto) (wallets d) = None \<longrightarrow>
      transfer usr dto ref d = (Inl (NotFoundException ''Recipient wallet not found''), d)) \<and>
   (100 \<le> transfer_amount dto \<and>
    findOne (\<lambda>w. wallet_userId w = user_id usr) (wallets d) = Some sw \<and>
    findOne (\<lambda>w. walletNumber w = wallet_number dto) (wallets d) = Some rw \<and>
    wallet_id sw = wallet_id rw \<longrightarrow>
      transfer usr dto ref d = (Inl (BadRequestException ''Cannot transfer to yourself''), d)) \<and>
   (100 \<le> transfer_amount dto \<and>
    findOne (\<lambda>w. wallet_userId w = user_id usr) (wallets d) = Some sw \<and>
    findOne (\<lambda>w. walletNumber w = wallet_number dto) (wallets d) = Some rw \<and>
    wallet_id sw \<noteq> wallet_id rw \<and> balance sw < transfer_amount dto \<longrightarrow>
      transfer usr dto ref d = (Inl (BadRequestException ''Insufficient balance''), d)) \<and>
   (transfer usr dto ref d = (Inl error, d') \<longrightarrow> d' = d)"
proof -
  have "transfer usr dto ref d = (Inl error, d') \<longrightarrow> d' = d"
    using transfer_error_unchanged by blast
  then show ?thesis
    by (simp add: transfer_unfold)
qed

theorem transfer_failures_witness:
  "transfer alice \<lparr>wallet_number = ''W2'', transfer_amount = 50\<rparr> ''r'' exampleStore =
     (Inl (BadRequestException (''Minimum transfer amount is '' @ naira @ ''100'')), exampleStore) \<and>
   transfer carol transfer300 ''r'' exampleStore =
     (Inl (NotFoundException ''Sender wallet not found''), exampleStore) \<and>
   transfer alice \<lparr>wallet_number = ''W9'', transfer_amount = 300\<rparr> ''r'' exampleStore =
     (Inl (NotFoundException ''Recipient wallet not found''), exampleStore) \<and>
   transfer alice \<lparr>wallet_number = ''W1'', transfer_amount = 300\<rparr> ''r'' exampleStore =
     (Inl (BadRequestException ''Cannot transfer to yourself''), exampleStore) \<and>
   transfer alice \<lparr>wallet_number = ''W2'', transfer_amount = 1001\<rparr> ''r'' exampleStore =
     (Inl (BadRequestException ''Insufficient balance''), exampleStore)"
proof -
  let ?w1 = "\<lparr>wallet_id = 1, wallet_userId = 1, walletNumber = ''W1'', balance = 1000\<rparr>"
  let ?w2 = "\<lparr>wallet_id = 2, wallet_userId = 2, walletNumber = ''W2'', balance = 500\<rparr>"
  have a: "findOne (\<lambda>w. wallet_userId w = user_id alice) (wallets exampleStore) = Some ?w1"
    by (simp add: alice_def exampleStore_def findOne_def)
  have c: "findOne (\<lambda>w. wallet_userId w = user_id carol) (wallets exampleStore) = None"
    by (simp add: carol_def exampleStore_def findOne_def)
  have n1: "findOne (\<lambda>w. walletNumber w = ''W1'') (wallets exampleStore) = Some ?w1"
    by (simp add: exampleStore_def findOne_def)
  have n2: "findOne (\<lambda>w. walletNumber w = ''W2'') (wallets exampleStore) = Some ?w2"
    by (simp add: exampleStore_def findOne_def)
  have n9: "findOne (\<lambda>w. walletNumber w = ''W9'') (wallets exampleStore) = None"
    by (simp add: exampleStore_def findOne_def)
  show ?thesis
    using
      transfer_failures [where dto = "\<lparr>wallet_number = ''W2'', transfer_amount = 50\<rparr>"
        and usr = alice and ref = "''r''" and d = exampleStore]
      transfer_failures [where dto = transfer300 and usr = carol and ref = "''r''"
        and d = exampleStore]
      transfer_failures [where dto = "\<lparr>wallet_number = ''W9'', transfer_amount = 300\<rparr>"
        and usr = alice and ref = "''r''" and d = exampleStore and sw = ?w1]
      transfer_failures [where dto = "\<lparr>wallet_number = ''W1'', transfer_amount = 300\<rparr>"
        and usr = alice and ref = "''r''" and d = exampleStore and sw = ?w1 and rw = ?w1]
      transfer_failures [where dto = "\<lparr>wallet_number = ''W2'', transfer_amount = 1001\<rparr>"
        and usr = alice and ref = "''r''" and d = exampleStore and sw = ?w1 and rw = ?w2]
      a c n1 n2 n9
    by (simp add: transfer300_def)
qed

section \<open>Webhook reconciliation\<close>

text \<open>
  C2. Delivering a webhook event a second time, at any later clock reading, leaves the
  committed store (wallet balances and ledger entries) as the first delivery left it. When the
  first delivery of a charge-succeeded event returned, the second returns as well and changes
  nothing; an entry that is already in success status makes the charge-succeeded handler
  commit without a change and return. The same holds for a charge-failed event and an entry
  that is already in failed status.
\<close>

theorem webhook_idempotent:
  "snd (handlePaystackWebhook pl sig' later (snd (handlePaystackWebhook pl sig now d))) =
     snd (handlePaystackWebhook pl sig now d) \<and>
   (handleSuccessfulCharge pl now d = (Inr (), d') \<longrightarrow>
      handleSuccessfulCharge pl later d' = (Inr (), d')) \<and>
   (transactionByReference d (data_reference (data pl)) = Some txn \<and> txn_status txn = SUCCESS \<longrightarrow>
      handleSuccessfulCharge pl now d = (Inr (), d)) \<and>
   (handleFailedCharge pl now d = (Inr (), d') \<longrightarrow>
      handleFailedCharge pl later d' = (Inr (), d')) \<and>
   (transactionByReference d (data_reference (data pl)) = Some txn \<and> txn_status txn = FAILED \<longrightarrow>
      handleFailedCharge pl now d = (Inr (), d))"
proof (intro conjI impI)
  show "snd (handlePaystackWebhook pl sig' later (snd (handlePaystackWebhook pl sig now d))) =
     snd (handlePaystackWebhook pl sig now d)"
    by (simp add: handlePaystackWebhook_def handleSuccessfulCharge_twice handleFailedCharge_twice)
next
  assume "handleSuccessfulCharge pl now d = (Inr (), d')"
  then show "handleSuccessfulCharge pl later d' = (Inr (), d')"
    by (rule handleSuccessfulCharge_again)
next
  assume "transactionByReference d (data_reference (data pl)) = Some txn \<and> txn_status txn = SUCCESS"
  then show "handleSuccessfulCharge pl now d = (Inr (), d)"
    by (simp add: handleSuccessfulCharge_unfold)
next
  assume "handleFailedCharge pl now d = (Inr (), d')"
  then show "handleFailedCharge pl later d' = (Inr (), d')"
    by (rule handleFailedCharge_again)
next
  assume "transactionByReference d (data_reference (data pl)) = Some txn \<and> txn_status txn = FAILED"
  then show "handleFailedCharge pl now d = (Inr (), d)"
    by (simp add: handleFailedCharge_unfold)
qed

theorem webhook_idempotent_witness:
  "handleSuccessfulCharge chargeSucceeded ''T1'' exampleStore =
     (Inr (), snd (handleSuccessfulCharge chargeSucceeded ''T1'' exampleStore)) \<and>
   handleSuccessfulCharge chargeSucceeded ''T2''
       (snd (handleSuccessfulCharge chargeSucceeded ''T1'' exampleStore)) =
     (Inr (), snd (handleSuccessfulCharge chargeSucceeded ''T1'' exampleStore)) \<and>
   getBalance alice (snd (handleSuccessfulCharge chargeSucceeded ''T1'' exampleStore)) =
     Inr (6000, ''W1'') \<and>
   handleSuccessfulCharge chargeSucceeded ''T1'' creditedStore = (Inr (), creditedStore) \<and>
   handleFailedCharge chargeFailed ''T1'' exampleStore =
     (Inr (), snd (handleFailedCharge chargeFailed ''T1'' exampleStore)) \<and>
   handleFailedCharge chargeFailed ''T2''
       (snd (handleFailedCharge chargeFailed ''T1'' exampleStore)) =
     (Inr (), snd (handleFailedCharge chargeFailed ''T1'' exampleStore)) \<and>
   handleFailedCharge chargeFailed ''T1'' failedStore = (Inr (), failedStore)"
proof -
  have ex: "transactionByReference exampleStore ''TXN_1'' = Some pendingDeposit"
    by (simp add: transactionByReference_def findOne_def exampleStore_def pendingDeposit_def)
  have s1: "handleSuccessfulCharge chargeSucceeded ''T1'' exampleStore =
     (Inr (), snd (handleSuccessfulCharge chargeSucceeded ''T1'' exampleStore))"
    using ex
    by (simp add: handleSuccessfulCharge_unfold chargeSucceeded_def pendingDeposit_def
        metadataObject_def walletRelation_def findOne_def exampleStore_def)
  have bal: "getBalance alice (snd (handleSuccessfulCharge chargeSucceeded ''T1'' exampleStore)) =
     Inr (6000, ''W1'')"
    using ex
    by (simp add: handleSuccessfulCharge_unfold chargeSucceeded_def pendingDeposit_def
        metadataObject_def walletRelation_def findOne_def exampleStore_def getBalance_def
        alice_def saveWallet_def)
  have c: "transactionByReference creditedStore (data_reference (data chargeSucceeded)) =
       Some (pendingDeposit\<lparr>txn_status := SUCCESS\<rparr>) \<and>
     txn_status (pendingDeposit\<lparr>txn_status := SUCCESS\<rparr>) = SUCCESS"
    by (simp add: transactionByReference_def findOne_def creditedStore_def pendingDeposit_def
        chargeSucceeded_def)
  have f1: "handleFailedCharge chargeFailed ''T1'' exampleStore =
     (Inr (), snd (handleFailedCharge chargeFailed ''T1'' exampleStore))"
    using ex
    by (simp add: handleFailedCharge_unfold chargeFailed_def pendingDeposit_def
        metadataObject_def)
  have f: "transactionByReference failedStore (data_reference (data chargeFailed)) =
       Some (pendingDeposit\<lparr>txn_status := FAILED\<rparr>) \<and>
     txn_status (pendingDeposit\<lparr>txn_status := FAILED\<rparr>) = FAILED"
    by (simp add: transactionByReference_def findOne_def failedStore_def pendingDeposit_def
        chargeFailed_def)
  show ?thesis
    using
      webhook_idempotent [where pl = chargeSucceeded and d = exampleStore and now = "''T1''"
        and later = "''T2''" and d' = "snd (handleSuccessfulCharge chargeSucceeded ''T1'' exampleStore)"]
      webhook_idempotent [where pl = chargeSucceeded and d = creditedStore and now = "''T1''"
        and txn = "pendingDeposit\<lparr>txn_status := SUCCESS\<rparr>"]
      webhook_idempotent [where pl = chargeFailed and d = exampleStore and now = "''T1''"
        and later = "''T2''" and d' = "snd (handleFailedCharge chargeFailed ''T1'' exampleStore)"]
      webhook_idempotent [where pl = chargeFailed and d = failedStore and now = "''T1''"
        and txn = "pendingDeposit\<lparr>txn_status := FAILED\<rparr>"]
      s1 bal c f1 f
    by simp
qed





text \<open>
  C10. A charge-failed event for an entry in success status (with metadata that is absent or
  an object) is not skipped: the call returns, the entry is in failed status afterwards, its
  metadata carries the failure time, the received flag and the failure reason the gateway gave,
  and the wallet table is exactly what it was, so the earlier credit stays.
\<close>

theorem failure_after_success_keeps_credit:
  assumes "transactionByReference d (data_reference (data pl)) = Some txn"
    and "txn_status txn = SUCCESS"
    and "metadataObject (txn_metadata txn) = Inr metadata"
  shows "\<exists>d'. handleFailedCharge pl now d = (Inr (), d') \<and>
           transactionByReference d' (data_reference (data pl)) =
             Some (txn\<lparr>txn_status := FAILED,
                       txn_metadata := Some (Document (failureMetadata pl now metadata))\<rparr>) \<and>
           map_of (failureMetadata pl now metadata) ''failure_time'' = Some (JStr now) \<and>
           map_of (failureMetadata pl now metadata) ''webhook_received'' = Some (JBool True) \<and>
           map_of (failureMetadata pl now metadata) ''failure_reason'' =
             map_option JStr (gateway_response (data pl)) \<and>
           wallets d' = wallets d"
proof -
  let ?txn' = "txn\<lparr>txn_status := FAILED,
                    txn_metadata := Some (Document (failureMetadata pl now metadata))\<rparr>"
  let ?d' = "d\<lparr>transactions := saveTransaction ?txn' (transactions d)\<rparr>"
  have run: "handleFailedCharge pl now d = (Inr (), ?d')"
    using assms by (simp add: handleFailedCharge_unfold)
  have entry: "transactionByReference ?d' (data_reference (data pl)) = Some ?txn'"
    using assms(1) transactionByReference_reference [OF assms(1)]
    by (intro transactionByReference_saved) simp_all
  have meta: "map_of (failureMetadata pl now metadata) ''failure_time'' = Some (JStr now)"
    "map_of (failureMetadata pl now metadata) ''webhook_received'' = Some (JBool True)"
    "map_of (failureMetadata pl now metadata) ''failure_reason'' =
       map_option JStr (gateway_response (data pl))"
    by (simp_all add: map_of_failureMetadata split: option.splits)
  have "wallets ?d' = wallets d" by simp
  with run entry meta show ?thesis by blast
qed

theorem failure_after_success_keeps_credit_witness:
  "\<exists>d'. handleFailedCharge chargeFailed ''T2'' creditedStore = (Inr (), d') \<and>
     transactionByReference d' ''TXN_1'' =
       Some (pendingDeposit\<lparr>txn_status := FAILED,
         txn_metadata := Some (Document
           [(''failure_reason'', JStr ''Declined''), (''failure_time'', JStr ''T2''),
            (''webhook_received'', JBool True)])\<rparr>) \<and>
     wallets d' = wallets creditedStore"
proof -
  let ?txn = "pendingDeposit\<lparr>txn_status := SUCCESS\<rparr>"
  have a: "transactionByReference creditedStore (data_reference (data chargeFailed)) = Some ?txn"
    by (simp add: transactionByReference_def findOne_def creditedStore_def pendingDeposit_def
        chargeFailed_def)
  have b: "txn_status ?txn = SUCCESS" by simp
  have c: "metadataObject (txn_metadata ?txn) = Inr []"
    by (simp add: pendingDeposit_def metadataObject_def)
  from failure_after_success_keeps_credit [OF a b c, of "''T2''"] show ?thesis
    by (simp add: failureMetadata_def setOptionalProp_def chargeFailed_def)
qed

section \<open>Balances never below zero\<close>

text \<open>
  C3, as the code has it. Starting from a store whose balances are all at least zero, every
  committed store that a sequence of balance reads, deposit initiations, transfers and webhook
  deliveries goes through has all balances at least zero, provided that no charge-succeeded
  event in the sequence notifies an amount below zero. A transfer whose sender has a balance
  below the amount throws and leaves the store unchanged; once the earlier checks have passed
  the exception is the bad request for an insufficient balance.
\<close>

theorem balances_never_negative:
  "(noNegativeBalance d \<and> list_all creditNonNegative opns \<longrightarrow>
      list_all noNegativeBalance (committedStates opns d)) \<and>
   (findOne (\<lambda>w. wallet_userId w = user_id usr) (wallets d) = Some sw \<and>
    balance sw < transfer_amount dto \<longrightarrow>
      (\<exists>error. transfer usr dto ref d = (Inl error, d))) \<and>
   (100 \<le> transfer_amount dto \<and>
    findOne (\<lambda>w. wallet_userId w = user_id usr) (wallets d) = Some sw \<and>
    findOne (\<lambda>w. walletNumber w = wallet_number dto) (wallets d) = Some rw \<and>
    wallet_id sw \<noteq> wallet_id rw \<and> balance sw < transfer_amount dto \<longrightarrow>
      transfer usr dto ref d = (Inl (BadRequestException ''Insufficient balance''), d))"
proof (intro conjI impI)
  assume "noNegativeBalance d \<and> list_all creditNonNegative opns"
  then show "list_all noNegativeBalance (committedStates opns d)"
    by (simp add: committedStates_noNegativeBalance)
next
  assume "findOne (\<lambda>w. wallet_userId w = user_id usr) (wallets d) = Some sw \<and>
    balance sw < transfer_amount dto"
  then show "\<exists>error. transfer usr dto ref d = (Inl error, d)"
    by (simp add: transfer_unfold split: option.splits)
next
  assume "100 \<le> transfer_amount dto \<and>
    findOne (\<lambda>w. wallet_userId w = user_id usr) (wallets d) = Some sw \<and>
    findOne (\<lambda>w. walletNumber w = wallet_number dto) (wallets d) = Some rw \<and>
    wallet_id sw \<noteq> wallet_id rw \<and> balance sw < transfer_amount dto"
  then show "transfer usr dto ref d = (Inl (BadRequestException ''Insufficient balance''), d)"
    by (simp add: transfer_unfold)
qed

theorem balances_never_negative_witness:
  "list_all noNegativeBalance
     (committedStates
        [Transfer alice transfer300 ''TRANSFER_1_a1b2c3d4'',
         ReconcileWebhook chargeSucceeded ''sig'' ''T1'',
         GetBalance alice,
         InitiateDeposit bob \<lparr>deposit_amount = 5000\<rparr> ''TXN_2''
           (\<lambda>email amount reference. Inl (UpstreamError ''timeout'')),
         ReconcileWebhook chargeFailed ''sig'' ''T2'']
        exampleStore) \<and>
   transfer alice \<lparr>wallet_number = ''W2'', transfer_amount = 1001\<rparr> ''r'' exampleStore =
     (Inl (BadRequestException ''Insufficient balance''), exampleStore)"
proof -
  let ?w1 = "\<lparr>wallet_id = 1, wallet_userId = 1, walletNumber = ''W1'', balance = 1000\<rparr>"
  let ?w2 = "\<lparr>wallet_id = 2, wallet_userId = 2, walletNumber = ''W2'', balance = 500\<rparr>"
  let ?dto = "\<lparr>wallet_number = ''W2'', transfer_amount = 1001\<rparr>"
  have start: "noNegativeBalance exampleStore"
    by (simp add: noNegativeBalance_def exampleStore_def)
  have events: "list_all creditNonNegative
     [Transfer alice transfer300 ''TRANSFER_1_a1b2c3d4'',
      ReconcileWebhook chargeSucceeded ''sig'' ''T1'',
      GetBalance alice,
      InitiateDeposit bob \<lparr>deposit_amount = 5000\<rparr> ''TXN_2''
        (\<lambda>email amount reference. Inl (UpstreamError ''timeout'')),
      ReconcileWebhook chargeFailed ''sig'' ''T2'']"
    by (simp add: chargeSucceeded_def chargeFailed_def)
  have a: "findOne (\<lambda>w. wallet_userId w = user_id alice) (wallets exampleStore) = Some ?w1"
    by (simp add: alice_def exampleStore_def findOne_def)
  have b: "findOne (\<lambda>w. walletNumber w = wallet_number ?dto) (wallets exampleStore) = Some ?w2"
    by (simp add: exampleStore_def findOne_def)
  show ?thesis
    using balances_never_negative [where d = exampleStore and usr = alice and dto = ?dto
        and sw = ?w1 and rw = ?w2 and ref = "''r''" and opns =
          "[Transfer alice transfer300 ''TRANSFER_1_a1b2c3d4'',
            ReconcileWebhook chargeSucceeded ''sig'' ''T1'',
            GetBalance alice,
            InitiateDeposit bob \<lparr>deposit_amount = 5000\<rparr> ''TXN_2''
              (\<lambda>email amount reference. Inl (UpstreamError ''timeout'')),
            ReconcileWebhook chargeFailed ''sig'' ''T2'']"]
      start events a b
    by simp
qed

text \<open>
  The claim as the specification words it, for every sequence, fails: the reconciler credits
  whatever amount the event notifies, so a charge-succeeded event for the pending deposit with
  an amount of minus 200000 takes the first wallet from 1000 to minus 1000.
\<close>

theorem negative_credit_counterexample:
  "noNegativeBalance exampleStore \<and>
   \<not> noNegativeBalance (apply_operation (ReconcileWebhook chargeNegative ''sig'' ''T1'') exampleStore) \<and>
   getBalance alice (apply_operation (ReconcileWebhook chargeNegative ''sig'' ''T1'') exampleStore) =
     Inr (- 1000, ''W1'')"
proof -
  have ex: "transactionByReference exampleStore ''TXN_1'' = Some pendingDeposit"
    by (simp add: transactionByReference_def findOne_def exampleStore_def pendingDeposit_def)
  have run: "apply_operation (ReconcileWebhook chargeNegative ''sig'' ''T1'') exampleStore =
      \<lparr>wallets =
         [\<lparr>wallet_id = 1, wallet_userId = 1, walletNumber = ''W1'', balance = - 1000\<rparr>,
          \<lparr>wallet_id = 2, wallet_userId = 2, walletNumber = ''W2'', balance = 500\<rparr>],
       transactions =
         [pendingDeposit\<lparr>txn_status := SUCCESS,
            txn_metadata := Some (Document (successMetadata chargeNegative ''T1'' []))\<rparr>]\<rparr>"
    using ex
    by (simp add: handlePaystackWebhook_def handleSuccessfulCharge_unfold chargeNegative_def
        pendingDeposit_def metadataObject_def walletRelation_def findOne_def exampleStore_def
        saveWallet_def saveTransaction_def)
  show ?thesis
    unfolding run
    by (simp add: noNegativeBalance_def exampleStore_def getBalance_def findOne_def alice_def)
qed

section \<open>Ledger entries of a transfer\<close>

text \<open>
  C7. A transfer that succeeds appends exactly two entries: a transfer-out on the sender's
  wallet that carries the recipient's wallet number and a transfer-in on the recipient's wallet
  that carries the sender's wallet number, both in success status. Neither carries a
  reference: the reference that the call generates is stored nowhere, and the outcome of the
  call does not depend on it.
\<close>

theorem transfer_entries_lack_reference:
  assumes "transfer usr dto transferReference d = (Inr response, d')"
  shows "\<exists>sw rw out inc.
           findOne (\<lambda>w. wallet_userId w = user_id usr) (wallets d) = Some sw \<and>
           findOne (\<lambda>w. walletNumber w = wallet_number dto) (wallets d) = Some rw \<and>
           transactions d' = transactions d @ [out, inc] \<and>
           txn_walletId out = wallet_id sw \<and> txn_type out = TRANSFER_OUT \<and>
           txn_status out = SUCCESS \<and> recipientWalletNumber out = Some (walletNumber rw) \<and>
           txn_walletId inc = wallet_id rw \<and> txn_type inc = TRANSFER_IN \<and>
           txn_status inc = SUCCESS \<and> senderWalletNumber inc = Some (walletNumber sw) \<and>
           txn_reference out = None \<and> txn_reference inc = None \<and>
           transfer usr dto otherReference d = (Inr response, d')"
  using assms
  by (auto simp: transfer_unfold insertTransaction_def split: if_splits option.splits)

theorem transfer_entries_lack_reference_witness:
  "transfer alice transfer300 ''TRANSFER_1_a1b2c3d4'' exampleStore =
     (Inr \<lparr>response_status = ''success'', response_message = ''Transfer completed successfully''\<rparr>,
      snd (transfer alice transfer300 ''TRANSFER_1_a1b2c3d4'' exampleStore)) \<and>
   map txn_reference (transactions (snd (transfer alice transfer300 ''TRANSFER_1_a1b2c3d4'' exampleStore))) =
     [Some ''TXN_1'', None, None] \<and>
   map txn_type (transactions (snd (transfer alice transfer300 ''TRANSFER_1_a1b2c3d4'' exampleStore))) =
     [DEPOSIT, TRANSFER_OUT, TRANSFER_IN]"
proof -
  have run: "transfer alice transfer300 ''TRANSFER_1_a1b2c3d4'' exampleStore =
     (Inr \<lparr>response_status = ''success'', response_message = ''Transfer completed successfully''\<rparr>,
      snd (transfer alice transfer300 ''TRANSFER_1_a1b2c3d4'' exampleStore))"
    by (simp add: transfer_unfold alice_def transfer300_def exampleStore_def findOne_def)
  have before: "transactions exampleStore = [pendingDeposit]"
    by (simp add: exampleStore_def)
  from transfer_entries_lack_reference [OF run, of "''TRANSFER_2_00000000''"]
  obtain out inc where
    "transactions (snd (transfer alice transfer300 ''TRANSFER_1_a1b2c3d4'' exampleStore)) =
       transactions exampleStore @ [out, inc]"
    "txn_type out = TRANSFER_OUT" "txn_type inc = TRANSFER_IN"
    "txn_reference out = None" "txn_reference inc = None"
    by blast
  with run before show ?thesis
    by (simp add: pendingDeposit_def)
qed

section \<open>Deposit status and tenants\<close>

text \<open>
  C8. When the entry with the given reference belongs to a wallet of another user, the status
  read throws the bad request for an unauthorized access, a fixed exception that carries
  nothing of the entry, and returns no status; a status is returned only for an entry whose
  wallet belongs to the caller. The read throws a not-found exception exactly when no entry
  has the reference.
\<close>

theorem deposit_status_isolated:
  "(transactionByReference d reference = Some txn \<and>
    walletRelation d txn = Some wlt \<and>
    wallet_userId wlt \<noteq> user_id usr \<longrightarrow>
      getDepositStatus usr reference d =
        Inl (BadRequestException ''Unauthorized access to transaction'') \<and>
      (\<forall>answer. getDepositStatus usr reference d \<noteq> Inr answer)) \<and>
   (getDepositStatus usr reference d = Inr answer \<longrightarrow>
      (\<exists>entry owned.
         transactionByReference d reference = Some entry \<and>
         walletRelation d entry = Some owned \<and>
         wallet_userId owned = user_id usr)) \<and>
   ((\<exists>message. getDepositStatus usr reference d = Inl (NotFoundException message)) \<longleftrightarrow>
      transactionByReference d reference = None)"
proof (intro conjI impI)
  assume "transactionByReference d reference = Some txn \<and>
    walletRelation d txn = Some wlt \<and> wallet_userId wlt \<noteq> user_id usr"
  then have "getDepositStatus usr reference d =
      Inl (BadRequestException ''Unauthorized access to transaction'')"
    by (simp add: getDepositStatus_def transactionByReference_def)
  then show "getDepositStatus usr reference d =
      Inl (BadRequestException ''Unauthorized access to transaction'')"
    and "\<forall>answer. getDepositStatus usr reference d \<noteq> Inr answer"
    by simp_all
next
  assume "getDepositStatus usr reference d = Inr answer"
  then show "\<exists>entry owned.
         transactionByReference d reference = Some entry \<and>
         walletRelation d entry = Some owned \<and>
         wallet_userId owned = user_id usr"
    unfolding getDepositStatus_def transactionByReference_def
    by (cases "findOne (\<lambda>t. txn_reference t = Some reference) (transactions d)")
       (auto split: option.splits if_splits)
next
  show "(\<exists>message. getDepositStatus usr reference d = Inl (NotFoundException message)) \<longleftrightarrow>
      transactionByReference d reference = None"
    unfolding getDepositStatus_def transactionByReference_def
    by (cases "findOne (\<lambda>t. txn_reference t = Some reference) (transactions d)")
       (auto split: option.splits)
qed

theorem deposit_status_isolated_witness:
  "getDepositStatus bob ''TXN_1'' exampleStore =
     Inl (BadRequestException ''Unauthorized access to transaction'') \<and>
   getDepositStatus bob ''TXN_9'' exampleStore = Inl (NotFoundException ''Transaction not found'') \<and>
   transactionByReference exampleStore ''TXN_9'' = None"
proof -
  let ?w1 = "\<lparr>wallet_id = 1, wallet_userId = 1, walletNumber = ''W1'', balance = 1000\<rparr>"
  have a: "transactionByReference exampleStore ''TXN_1'' = Some pendingDeposit \<and>
      walletRelation exampleStore pendingDeposit = Some ?w1 \<and>
      wallet_userId ?w1 \<noteq> user_id bob"
    by (simp add: transactionByReference_def walletRelation_def findOne_def exampleStore_def
        pendingDeposit_def bob_def)
  have b: "transactionByReference exampleStore ''TXN_9'' = None"
    by (simp add: transactionByReference_def findOne_def exampleStore_def pendingDeposit_def)
  have c: "getDepositStatus bob ''TXN_9'' exampleStore = Inl (NotFoundException ''Transaction not found'')"
    using b by (simp add: getDepositStatus_def transactionByReference_def)
  from deposit_status_isolated [where d = exampleStore and reference = "''TXN_1''"
      and txn = pendingDeposit and wlt = ?w1 and usr = bob, THEN conjunct1] a
  have "getDepositStatus bob ''TXN_1'' exampleStore =
      Inl (BadRequestException ''Unauthorized access to transaction'')"
    by blast
  with b c show ?thesis by simp
qed

section \<open>Order of the row locks\<close>

text \<open>
  C9, as the code has it. A transfer that finds both wallets locks the sender's wallet row
  first and the recipient's wallet row second, whatever their wallet ids; the code does not
  order the two locks by id.
\<close>

theorem transfer_locks_caller_order:
  assumes "100 \<le> transfer_amount dto"
    and "findOne (\<lambda>w. wallet_userId w = user_id usr) (wallets d) = Some sw"
    and "findOne (\<lambda>w. walletNumber w = wallet_number dto) (wallets d) = Some rw"
  shows "transfer_locks usr dto ref d = [wallet_id sw, wallet_id rw]"
  using assms by (simp add: transfer_locks_unfold)

theorem transfer_locks_caller_order_witness:
  "transfer_locks alice transfer300 ''r'' exampleStore = [1, 2] \<and>
   transfer_locks bob transferBack ''r'' exampleStore = [2, 1]"
proof -
  let ?w1 = "\<lparr>wallet_id = 1, wallet_userId = 1, walletNumber = ''W1'', balance = 1000\<rparr>"
  let ?w2 = "\<lparr>wallet_id = 2, wallet_userId = 2, walletNumber = ''W2'', balance = 500\<rparr>"
  have amt: "100 \<le> transfer_amount transfer300" "100 \<le> transfer_amount transferBack"
    by (simp_all add: transfer300_def transferBack_def)
  have a: "findOne (\<lambda>w. wallet_userId w = user_id alice) (wallets exampleStore) = Some ?w1"
    by (simp add: alice_def exampleStore_def findOne_def)
  have b: "findOne (\<lambda>w. wallet_userId w = user_id bob) (wallets exampleStore) = Some ?w2"
    by (simp add: bob_def exampleStore_def findOne_def)
  have n1: "findOne (\<lambda>w. walletNumber w = wallet_number transferBack) (wallets exampleStore) = Some ?w1"
    by (simp add: transferBack_def exampleStore_def findOne_def)
  have n2: "findOne (\<lambda>w. walletNumber w = wallet_number transfer300) (wallets exampleStore) = Some ?w2"
    by (simp add: transfer300_def exampleStore_def findOne_def)
  from transfer_locks_caller_order [OF amt(1) a n2, of "''r''"]
    transfer_locks_caller_order [OF amt(2) b n1, of "''r''"]
  show ?thesis by simp
qed

text \<open>
  The claim as the specification words it, locks in ascending order of wallet id, fails: the
  second user sending to the first wallet locks wallet 2 and then wallet 1, the reverse of the
  order the mirror-image transfer takes.
\<close>

theorem lock_order_counterexample:
  "transfer_locks bob transferBack ''r'' exampleStore = [2, 1] \<and>
   \<not> sorted (transfer_locks bob transferBack ''r'' exampleStore) \<and>
   transfer_locks alice transfer300 ''r'' exampleStore =
     rev (transfer_locks bob transferBack ''r'' exampleStore)"
  by (simp add: transfer_locks_unfold bob_def alice_def transferBack_def transfer300_def
      exampleStore_def findOne_def)

end
